theory Spec2Isabelle
  imports Complex_Main
begin

section \<open>The receipt validator of \<^verbatim>\<open>validation_ui.py\<close>\<close>

text \<open>
  The development embeds \<^verbatim>\<open>validate_receipt(data, skip_duplicate=False)\<close> and the
  parts of the Python runtime it calls: \<^verbatim>\<open>float()\<close>, float arithmetic and comparison,
  \<^verbatim>\<open>datetime.strptime(_, "%Y-%m-%d")\<close> and \<^verbatim>\<open>dict.get\<close>. Every exception of the
  source is a value \<open>Inl e\<close> of a sum type; the one external collaborator,
  \<^verbatim>\<open>receipt_exists\<close> of \<^verbatim>\<open>database.queries\<close>, is a parameter, and the calls made to it
  are logged.
\<close>

subsection \<open>Exceptions\<close>

datatype pyerror =
    TypeError | ValueError | OverflowError | ZeroDivisionError | KeyError
  | StoreFault string

definition bind_err :: "pyerror + 'a \<Rightarrow> ('a \<Rightarrow> pyerror + 'b) \<Rightarrow> pyerror + 'b" where
  "bind_err m f = (case m of Inl e \<Rightarrow> Inl e | Inr x \<Rightarrow> f x)"

subsection \<open>Floats\<close>

text \<open>
  A Python float is a binary64 number. It is modelled by the real number it denotes, or
  one of the three special values. The range of binary64 is modelled (\<open>double_of_real\<close>
  sends a result beyond the largest double to an infinity and a result below half the
  smallest subnormal to zero, as round-to-nearest does); the rounding of in-range results
  to 53 bits is not, and the sign of zero is not kept.
\<close>

datatype pyfloat = Fin real | PInf | NInf | NaN

definition overflow_threshold :: real where
  "overflow_threshold = 2 ^ 1024 - 2 ^ 970"

definition underflow_threshold :: real where
  "underflow_threshold = 1 / 2 ^ 1075"

definition double_of_real :: "real \<Rightarrow> pyfloat" where
  "double_of_real x =
     (if overflow_threshold \<le> \<bar>x\<bar> then (if x < 0 then NInf else PInf)
      else if \<bar>x\<bar> \<le> underflow_threshold then Fin 0
      else Fin x)"

text \<open>\<^verbatim>\<open>x <= y\<close>, \<^verbatim>\<open>x < y\<close> and \<^verbatim>\<open>x == y\<close>: every comparison with a NaN is false.\<close>

fun fle :: "pyfloat \<Rightarrow> pyfloat \<Rightarrow> bool" where
  "fle NaN _ = False"
| "fle _ NaN = False"
| "fle NInf _ = True"
| "fle _ PInf = True"
| "fle (Fin a) (Fin b) = (a \<le> b)"
| "fle PInf _ = False"
| "fle _ NInf = False"

fun flt :: "pyfloat \<Rightarrow> pyfloat \<Rightarrow> bool" where
  "flt NaN _ = False"
| "flt _ NaN = False"
| "flt PInf _ = False"
| "flt _ NInf = False"
| "flt NInf _ = True"
| "flt _ PInf = True"
| "flt (Fin a) (Fin b) = (a < b)"

definition feq :: "pyfloat \<Rightarrow> pyfloat \<Rightarrow> bool" where
  "feq x y = (x \<noteq> NaN \<and> x = y)"

fun fabs :: "pyfloat \<Rightarrow> pyfloat" where
  "fabs (Fin a) = Fin \<bar>a\<bar>"
| "fabs PInf = PInf"
| "fabs NInf = PInf"
| "fabs NaN = NaN"

text \<open>\<^verbatim>\<open>x - y\<close>: infinities of the same sign cancel to a NaN.\<close>

fun fsub :: "pyfloat \<Rightarrow> pyfloat \<Rightarrow> pyfloat" where
  "fsub NaN _ = NaN"
| "fsub _ NaN = NaN"
| "fsub (Fin a) (Fin b) = double_of_real (a - b)"
| "fsub PInf PInf = NaN"
| "fsub NInf NInf = NaN"
| "fsub PInf _ = PInf"
| "fsub NInf _ = NInf"
| "fsub (Fin a) PInf = NInf"
| "fsub (Fin a) NInf = PInf"

text \<open>\<^verbatim>\<open>x * y\<close>: an infinity times zero is a NaN.\<close>

definition inf_of_sign :: "bool \<Rightarrow> pyfloat" where
  "inf_of_sign negative = (if negative then NInf else PInf)"

fun fmul :: "pyfloat \<Rightarrow> pyfloat \<Rightarrow> pyfloat" where
  "fmul NaN _ = NaN"
| "fmul _ NaN = NaN"
| "fmul (Fin a) (Fin b) = double_of_real (a * b)"
| "fmul (Fin a) PInf = (if a = 0 then NaN else inf_of_sign (a < 0))"
| "fmul (Fin a) NInf = (if a = 0 then NaN else inf_of_sign (0 < a))"
| "fmul PInf (Fin b) = (if b = 0 then NaN else inf_of_sign (b < 0))"
| "fmul NInf (Fin b) = (if b = 0 then NaN else inf_of_sign (0 < b))"
| "fmul PInf PInf = PInf"
| "fmul NInf NInf = PInf"
| "fmul PInf NInf = NInf"
| "fmul NInf PInf = NInf"

text \<open>
  \<^verbatim>\<open>x / y\<close> raises ZeroDivisionError when the divisor compares equal to zero, whatever
  the dividend; a finite number over an infinity is zero, an infinity over an infinity a
  NaN.
\<close>

fun fdiv :: "pyfloat \<Rightarrow> pyfloat \<Rightarrow> pyerror + pyfloat" where
  "fdiv x (Fin b) =
     (if b = 0 then Inl ZeroDivisionError
      else Inr (case x of
                  Fin a \<Rightarrow> double_of_real (a / b)
                | PInf \<Rightarrow> inf_of_sign (b < 0)
                | NInf \<Rightarrow> inf_of_sign (0 < b)
                | NaN \<Rightarrow> NaN))"
| "fdiv NaN _ = Inr NaN"
| "fdiv _ NaN = Inr NaN"
| "fdiv (Fin a) _ = Inr (Fin 0)"
| "fdiv _ _ = Inr NaN"

subsection \<open>Field values\<close>

text \<open>
  The values a record's field can hold: what the extraction step or the store delivers.
  Python's int is unbounded.
\<close>

datatype pyval = PNone | PBool bool | PInt int | PFloat pyfloat | PStr string

subsection \<open>\<^verbatim>\<open>float(v)\<close>\<close>

definition is_digit :: "char \<Rightarrow> bool" where
  "is_digit c = (48 \<le> (of_char c :: nat) \<and> (of_char c :: nat) \<le> 57)"

definition digit_val :: "char \<Rightarrow> nat" where
  "digit_val c = of_char c - 48"

definition nat_of_digits :: "string \<Rightarrow> nat" where
  "nat_of_digits ds = foldl (\<lambda>n c. 10 * n + digit_val c) 0 ds"

definition py_isspace :: "char \<Rightarrow> bool" where
  "py_isspace c = ((9 \<le> (of_char c :: nat) \<and> (of_char c :: nat) \<le> 13) \<or> (of_char c :: nat) = 32)"

definition strip :: "string \<Rightarrow> string" where
  "strip s = rev (dropWhile py_isspace (rev (dropWhile py_isspace s)))"

definition lower :: "char \<Rightarrow> char" where
  "lower c = (if 65 \<le> (of_char c :: nat) \<and> (of_char c :: nat) \<le> 90
              then char_of ((of_char c :: nat) + 32) else c)"

text \<open>
  An underscore is accepted only between two digits; the scan runs over the whole string,
  with \<open>prev\<close> the character before.
\<close>

fun underscores_ok :: "char \<Rightarrow> string \<Rightarrow> bool" where
  "underscores_ok prev [] = (prev \<noteq> CHR ''_'')"
| "underscores_ok prev (c # cs) =
     (if c = CHR ''_'' then is_digit prev \<and> underscores_ok c cs
      else (if prev = CHR ''_'' then is_digit c else True) \<and> underscores_ok c cs)"

definition take_sign :: "string \<Rightarrow> bool \<times> string" where
  "take_sign s =
     (case s of
        [] \<Rightarrow> (False, s)
      | c # r \<Rightarrow> if c = CHR ''-'' then (True, r) else if c = CHR ''+'' then (False, r)
                 else (False, s))"

text \<open>
  \<open>inf\<close>, \<open>infinity\<close> and \<open>nan\<close> in any case, after an optional sign. The result is the
  value and the text left over; \<open>None\<close> when nothing was recognised.
\<close>

definition parse_inf_or_nan :: "string \<Rightarrow> (pyfloat \<times> string) option" where
  "parse_inf_or_nan s =
     (let (negative, s1) = take_sign s; l = map lower s1
      in if take 3 l = ''inf''
         then (if take 5 (drop 3 l) = ''inity'' then Some (inf_of_sign negative, drop 8 s1)
               else Some (inf_of_sign negative, drop 3 s1))
         else if take 3 l = ''nan'' then Some (NaN, drop 3 s1)
         else None)"

text \<open>
  The exponent part: \<open>e\<close> or \<open>E\<close>, an optional sign, at least one digit. Without a digit
  the exponent is not consumed.
\<close>

definition parse_exponent :: "string \<Rightarrow> int \<times> string" where
  "parse_exponent s =
     (case s of
        [] \<Rightarrow> (0, s)
      | c # r \<Rightarrow>
          if c = CHR ''e'' \<or> c = CHR ''E''
          then (let (negative, r1) = take_sign r; ds = takeWhile is_digit r1
                in if ds = [] then (0, s)
                   else ((if negative then - int (nat_of_digits ds) else int (nat_of_digits ds)),
                         dropWhile is_digit r1))
          else (0, s))"

text \<open>
  A decimal literal: sign, digits, an optional point and digits, an optional exponent;
  one digit at least before or after the point.
\<close>

definition parse_decimal :: "string \<Rightarrow> (real \<times> string) option" where
  "parse_decimal s =
     (let (negative, s1) = take_sign s;
          ip = takeWhile is_digit s1;
          s2 = dropWhile is_digit s1;
          (fp, s3) = (case s2 of
                        [] \<Rightarrow> ([], s2)
                      | c # r \<Rightarrow> if c = CHR ''.'' then (takeWhile is_digit r, dropWhile is_digit r)
                                 else ([], s2))
      in if ip = [] \<and> fp = [] then None
         else (let (ex, s4) = parse_exponent s3;
                   m = real (nat_of_digits (ip @ fp));
                   k = ex - int (length fp);
                   v = (if 0 \<le> k then m * 10 ^ nat k else m / 10 ^ nat (- k))
               in Some ((if negative then - v else v), s4)))"

definition float_from_string :: "string \<Rightarrow> pyerror + pyfloat" where
  "float_from_string s =
     (if \<not> underscores_ok (CHR 0x00) s then Inl ValueError
      else (let t = strip (filter (\<lambda>c. c \<noteq> CHR ''_'') s)
            in case parse_inf_or_nan t of
                 Some (f, rest) \<Rightarrow> if rest = [] then Inr f else Inl ValueError
               | None \<Rightarrow>
                   (case parse_decimal t of
                      Some (v, rest) \<Rightarrow> if rest = [] then Inr (double_of_real v) else Inl ValueError
                    | None \<Rightarrow> Inl ValueError)))"

text \<open>
  \<^verbatim>\<open>float(v)\<close>: TypeError for None, ValueError for a string that is no float literal,
  OverflowError for an int that rounds beyond the largest double.
\<close>

fun py_float :: "pyval \<Rightarrow> pyerror + pyfloat" where
  "py_float PNone = Inl TypeError"
| "py_float (PBool b) = Inr (Fin (if b then 1 else 0))"
| "py_float (PInt i) =
     (if 2 ^ 1024 - 2 ^ 970 \<le> \<bar>i\<bar> then Inl OverflowError else Inr (Fin (real_of_int i)))"
| "py_float (PFloat f) = Inr f"
| "py_float (PStr s) = float_from_string s"

subsection \<open>\<^verbatim>\<open>datetime.strptime(s, "%Y-%m-%d")\<close>\<close>

text \<open>
  The format is compiled to the regular expression
  \<^verbatim>\<open>(\d\d\d\d)-(1[0-2]|0[1-9]|[1-9])-(3[0-1]|[1-2]\d|0[1-9]|[1-9]| [1-9])\<close>, matched at
  the start of the text with the alternatives tried in order; text left after the match
  is an error, and so is a date the calendar does not have. Each alternative is the list
  of its matches (none or one): the text matched and the text left.
\<close>

definition between :: "char \<Rightarrow> char \<Rightarrow> char \<Rightarrow> bool" where
  "between lo hi c = ((of_char lo :: nat) \<le> of_char c \<and> (of_char c :: nat) \<le> of_char hi)"

fun alt1 :: "(char \<Rightarrow> bool) \<Rightarrow> string \<Rightarrow> (string \<times> string) list" where
  "alt1 p (a # r) = (if p a then [([a], r)] else [])"
| "alt1 p [] = []"

fun alt2 :: "(char \<Rightarrow> bool) \<Rightarrow> (char \<Rightarrow> bool) \<Rightarrow> string \<Rightarrow> (string \<times> string) list" where
  "alt2 p q (a # b # r) = (if p a \<and> q b then [([a, b], r)] else [])"
| "alt2 p q _ = []"

definition month_alts :: "string \<Rightarrow> (string \<times> string) list" where
  "month_alts s =
     alt2 (\<lambda>c. c = CHR ''1'') (between CHR ''0'' CHR ''2'') s
     @ alt2 (\<lambda>c. c = CHR ''0'') (between CHR ''1'' CHR ''9'') s
     @ alt1 (between CHR ''1'' CHR ''9'') s"

definition day_alts :: "string \<Rightarrow> (string \<times> string) list" where
  "day_alts s =
     alt2 (\<lambda>c. c = CHR ''3'') (between CHR ''0'' CHR ''1'') s
     @ alt2 (between CHR ''1'' CHR ''2'') is_digit s
     @ alt2 (\<lambda>c. c = CHR ''0'') (between CHR ''1'' CHR ''9'') s
     @ alt1 (between CHR ''1'' CHR ''9'') s
     @ alt2 (\<lambda>c. c = CHR '' '') (between CHR ''1'' CHR ''9'') s"

text \<open>
  After a month alternative the hyphen must follow, then a day alternative; the first
  combination in backtracking order is the match.
\<close>

definition month_day_matches :: "string \<Rightarrow> (nat \<times> nat \<times> string) list" where
  "month_day_matches s =
     concat (map (\<lambda>(mt, r1).
                    case r1 of
                      [] \<Rightarrow> []
                    | c # r2 \<Rightarrow>
                        if c = CHR ''-''
                        then map (\<lambda>(dt, rest).
                                    (nat_of_digits mt, nat_of_digits (filter is_digit dt), rest))
                                 (day_alts r2)
                        else [])
                 (month_alts s))"

definition match_ymd :: "string \<Rightarrow> (nat \<times> nat \<times> nat \<times> string) option" where
  "match_ymd s =
     (case s of
        y1 # y2 # y3 # y4 # h # r \<Rightarrow>
          if is_digit y1 \<and> is_digit y2 \<and> is_digit y3 \<and> is_digit y4 \<and> h = CHR ''-''
          then (case month_day_matches r of
                  [] \<Rightarrow> None
                | (m, d, rest) # _ \<Rightarrow> Some (nat_of_digits [y1, y2, y3, y4], m, d, rest))
          else None
      | _ \<Rightarrow> None)"

definition leap :: "nat \<Rightarrow> bool" where
  "leap y = (y mod 4 = 0 \<and> (y mod 100 \<noteq> 0 \<or> y mod 400 = 0))"

definition days_in_month :: "nat \<Rightarrow> nat \<Rightarrow> nat" where
  "days_in_month y m =
     (if m = 2 then (if leap y then 29 else 28)
      else if m = 4 \<or> m = 6 \<or> m = 9 \<or> m = 11 then 30
      else 31)"

definition strptime_ymd :: "string \<Rightarrow> pyerror + (nat \<times> nat \<times> nat)" where
  "strptime_ymd s =
     (case match_ymd s of
        None \<Rightarrow> Inl ValueError
      | Some (y, m, d, rest) \<Rightarrow>
          if rest \<noteq> [] then Inl ValueError
          else if y < 1 then Inl ValueError
          else if days_in_month y m < d then Inl ValueError
          else Inr (y, m, d))"

text \<open>
  \<^verbatim>\<open>str(v)\<close> is the text itself for a string. For None, a bool, an int and a float it
  is \<^verbatim>\<open>None\<close>, \<^verbatim>\<open>True\<close> or \<^verbatim>\<open>False\<close>, a decimal numeral or a float literal: in none of
  them are four digits followed by a hyphen, so the parse fails. \<^verbatim>\<open>str\<close> of an int of
  more than 4300 digits raises ValueError (the interpreter's limit on int-to-text
  conversion).
\<close>

definition str_raises :: "pyval \<Rightarrow> bool" where
  "str_raises v = (case v of PInt i \<Rightarrow> 10 ^ 4300 \<le> \<bar>i\<bar> | _ \<Rightarrow> False)"

definition date_parses :: "pyval \<Rightarrow> bool" where
  "date_parses v = (case v of PStr s \<Rightarrow> (case strptime_ymd s of Inr _ \<Rightarrow> True | Inl _ \<Rightarrow> False)
                    | _ \<Rightarrow> False)"

subsection \<open>Records and reports\<close>

text \<open>
  The record is a dict from field names to values. A message is an f-string: its literal
  text and its fields in order, a field being a value printed by \<^verbatim>\<open>str\<close> or a float
  printed with a fixed number of decimals (\<^verbatim>\<open>{x:.2f}\<close>). The rupee sign is its three
  UTF-8 bytes.
\<close>

type_synonym receipt = "string \<rightharpoonup> pyval"

datatype part = Lit string | Str pyval | Fixed nat pyfloat

record rule_result =
  title :: string
  status :: string
  message :: "part list"

record report =
  passed :: bool
  results :: "rule_result list"

definition rupee :: string where
  "rupee = [CHR 0xE2, CHR 0x82, CHR 0xB9]"

definition EXPECTED_TAX_RATE :: pyfloat where
  "EXPECTED_TAX_RATE = Fin (8 / 100)"

definition TOLERANCE :: pyfloat where
  "TOLERANCE = Fin (5 / 100)"

definition required :: "string list" where
  "required = [''bill_id'', ''vendor'', ''date'', ''amount'', ''tax'']"

text \<open>\<^verbatim>\<open>data.get(k)\<close> is None for an absent key; \<^verbatim>\<open>data[k]\<close> raises KeyError.\<close>

definition dict_get :: "receipt \<Rightarrow> string \<Rightarrow> pyval" where
  "dict_get data k = (case data k of None \<Rightarrow> PNone | Some v \<Rightarrow> v)"

definition getitem :: "receipt \<Rightarrow> string \<Rightarrow> pyerror + pyval" where
  "getitem data k = (case data k of None \<Rightarrow> Inl KeyError | Some v \<Rightarrow> Inr v)"

fun join :: "string \<Rightarrow> string list \<Rightarrow> string" where
  "join sep [] = []"
| "join sep [x] = x"
| "join sep (x # y # ys) = x @ sep @ join sep (y # ys)"

definition append_result :: "string \<Rightarrow> string \<Rightarrow> part list \<Rightarrow> report \<Rightarrow> report" where
  "append_result t s m st =
     st\<lparr>results := results st @ [\<lparr>title = t, status = s, message = m\<rparr>]\<rparr>"

subsection \<open>The rules of \<^verbatim>\<open>validate_receipt\<close>\<close>

text \<open>
  Each rule takes the report built so far (\<^verbatim>\<open>passed\<close> and \<^verbatim>\<open>results\<close>) and returns it
  with one result appended, \<^verbatim>\<open>passed\<close> set to False on an error.
\<close>

definition initial_report :: report where
  "initial_report = \<lparr>passed = True, results = []\<rparr>"

definition missing_fields :: "receipt \<Rightarrow> string list" where
  "missing_fields data = filter (\<lambda>f. dict_get data f = PNone) required"

text \<open>
  Date Format. \<^verbatim>\<open>except Exception\<close> catches whatever \<^verbatim>\<open>str\<close> and \<^verbatim>\<open>strptime\<close> raise;
  the handler prints the value into its message, and what \<^verbatim>\<open>str\<close> raises there is not
  caught.
\<close>

definition date_format :: "pyval \<Rightarrow> report \<Rightarrow> pyerror + report" where
  "date_format d st =
     (if date_parses d
      then Inr (append_result ''Date Format'' ''success'' [Lit ''Valid date: '', Str d] st)
      else if str_raises d then Inl ValueError
      else Inr ((append_result ''Date Format'' ''error''
                   [Lit ''Invalid date format: '', Str d] st)\<lparr>passed := False\<rparr>))"

text \<open>
  \<^verbatim>\<open>try: x = float(v)  except (ValueError, TypeError): x = 0.0\<close>. Another exception is
  not caught.
\<close>

definition coerce :: "pyval \<Rightarrow> pyerror + pyfloat" where
  "coerce v =
     (case py_float v of
        Inr x \<Rightarrow> Inr x
      | Inl e \<Rightarrow> if e = ValueError \<or> e = TypeError then Inr (Fin 0) else Inl e)"

definition total_validation :: "pyfloat \<Rightarrow> report \<Rightarrow> report" where
  "total_validation amount st =
     (if flt (Fin 0) amount
      then append_result ''Total Validation'' ''success''
             [Lit (''Amount detected: '' @ rupee), Fixed 2 amount] st
      else (append_result ''Total Validation'' ''error'' [Lit ''Invalid amount value''] st)
             \<lparr>passed := False\<rparr>)"

text \<open>
  The loop over the two subtotals. The result is \<^verbatim>\<open>(valid, used_subtotal, actual_rate)\<close>
  as the loop leaves them.
\<close>

fun try_subtotals :: "pyfloat \<Rightarrow> pyfloat list \<Rightarrow> pyerror + (bool \<times> pyfloat \<times> pyfloat)" where
  "try_subtotals tax [] = Inr (False, Fin 0, Fin 0)"
| "try_subtotals tax (subtotal # rest) =
     (if fle subtotal (Fin 0) then try_subtotals tax rest
      else bind_err (fdiv tax subtotal) (\<lambda>rate.
             if fle (fabs (fsub rate EXPECTED_TAX_RATE)) TOLERANCE
             then Inr (True, subtotal, rate)
             else try_subtotals tax rest))"

definition tax_rate_validation :: "pyfloat \<Rightarrow> pyfloat \<Rightarrow> report \<Rightarrow> pyerror + report" where
  "tax_rate_validation amount tax st =
     (if feq tax (Fin 0)
      then Inr (append_result ''Tax Rate Validation'' ''success''
                  [Lit ''No tax applied (valid)''] st)
      else bind_err (try_subtotals tax [fsub amount tax, amount])
             (\<lambda>(valid, used_subtotal, actual_rate).
                if valid
                then Inr (append_result ''Tax Rate Validation'' ''success''
                            [Lit ''Tax rate OK ('', Fixed 2 (fmul actual_rate (Fin 100)),
                             Lit (''%, Subtotal '' @ rupee), Fixed 2 used_subtotal, Lit '')'']
                            st)
                else Inr ((append_result ''Tax Rate Validation'' ''error''
                             [Lit ''Tax mismatch. Expected ~'',
                              Fixed 1 (fmul EXPECTED_TAX_RATE (Fin 100)),
                              Lit (''% but got '' @ rupee), Fixed 2 tax,
                              Lit ('' on amount '' @ rupee), Fixed 2 amount] st)
                            \<lparr>passed := False\<rparr>)))"

text \<open>
  Duplicate Detection: \<^verbatim>\<open>receipt_exists\<close> is the store's query; what it raises
  propagates.
\<close>

definition duplicate_detection ::
    "(pyval \<Rightarrow> pyerror + bool) \<Rightarrow> pyval \<Rightarrow> report \<Rightarrow> pyerror + report" where
  "duplicate_detection receipt_exists bill_id st =
     bind_err (receipt_exists bill_id) (\<lambda>found.
       if found
       then Inr ((append_result ''Duplicate Detection'' ''error''
                    [Lit ''Duplicate receipt found''] st)\<lparr>passed := False\<rparr>)
       else Inr (append_result ''Duplicate Detection'' ''success''
                   [Lit ''No duplicate found''] st))"

text \<open>
  The rules between the required-fields gate and the duplicate check, lines 30 to 121 of
  the source, starting from \<^verbatim>\<open>results = []\<close> and \<^verbatim>\<open>passed = True\<close>.
\<close>

definition rules_after_gate :: "receipt \<Rightarrow> pyerror + report" where
  "rules_after_gate data =
     (let st0 = append_result ''Required Fields'' ''success''
                  [Lit ''All required fields present''] initial_report
      in bind_err (getitem data ''date'') (\<lambda>d.
         bind_err (date_format d st0) (\<lambda>st1.
         bind_err (getitem data ''amount'') (\<lambda>av.
         bind_err (coerce av) (\<lambda>amount.
         bind_err (getitem data ''tax'') (\<lambda>tv.
         bind_err (coerce tv) (\<lambda>tax.
         tax_rate_validation amount tax (total_validation amount st1))))))))"

text \<open>
  \<^verbatim>\<open>validate_receipt(data, skip_duplicate)\<close>. The first component of the result is the
  log of the calls made to \<^verbatim>\<open>receipt_exists\<close> (their arguments, in order); the second is
  the report returned or the exception raised.
\<close>

definition validate_receipt ::
    "(pyval \<Rightarrow> pyerror + bool) \<Rightarrow> receipt \<Rightarrow> bool \<Rightarrow> pyval list \<times> (pyerror + report)" where
  "validate_receipt receipt_exists data skip_duplicate =
     (let missing = missing_fields data
      in if missing \<noteq> []
         then ([], Inr ((append_result ''Required Fields'' ''error''
                           [Lit (''Missing fields: '' @ join '', '' missing)] initial_report)
                          \<lparr>passed := False\<rparr>))
         else (case rules_after_gate data of
                 Inl e \<Rightarrow> ([], Inl e)
               | Inr st \<Rightarrow>
                   if \<not> skip_duplicate
                   then (case getitem data ''bill_id'' of
                           Inl e \<Rightarrow> ([], Inl e)
                         | Inr b \<Rightarrow> ([b], duplicate_detection receipt_exists b st))
                   else ([], Inr st)))"

subsection \<open>Notions of the specification\<close>

text \<open>The coerced value of a field: \<^verbatim>\<open>float(data[k])\<close> under the handler of the source.\<close>

definition coerced :: "receipt \<Rightarrow> string \<Rightarrow> pyerror + pyfloat" where
  "coerced data k = bind_err (getitem data k) coerce"

text \<open>
  A candidate subtotal qualifies when it is not skipped (it is not \<open>\<le> 0\<close>) and the rate
  \<open>tax / candidate\<close> lies within 0.05 of 0.08.
\<close>

definition rate_of :: "pyfloat \<Rightarrow> pyfloat \<Rightarrow> pyfloat" where
  "rate_of tax candidate = (case fdiv tax candidate of Inr r \<Rightarrow> r | Inl _ \<Rightarrow> NaN)"

definition qualifies :: "pyfloat \<Rightarrow> pyfloat \<Rightarrow> bool" where
  "qualifies tax candidate =
     (\<not> fle candidate (Fin 0)
      \<and> fle (fabs (fsub (rate_of tax candidate) (Fin (8 / 100)))) (Fin (5 / 100)))"

definition missing_result :: "string list \<Rightarrow> rule_result" where
  "missing_result missing =
     \<lparr>title = ''Required Fields'', status = ''error'',
      message = [Lit (''Missing fields: '' @ join '', '' missing)]\<rparr>"

definition required_ok_result :: rule_result where
  "required_ok_result =
     \<lparr>title = ''Required Fields'', status = ''success'',
      message = [Lit ''All required fields present'']\<rparr>"

definition date_ok_result :: "pyval \<Rightarrow> rule_result" where
  "date_ok_result d =
     \<lparr>title = ''Date Format'', status = ''success'', message = [Lit ''Valid date: '', Str d]\<rparr>"

definition date_error_result :: "pyval \<Rightarrow> rule_result" where
  "date_error_result d =
     \<lparr>title = ''Date Format'', status = ''error'',
      message = [Lit ''Invalid date format: '', Str d]\<rparr>"

definition amount_ok_result :: "pyfloat \<Rightarrow> rule_result" where
  "amount_ok_result amount =
     \<lparr>title = ''Total Validation'', status = ''success'',
      message = [Lit (''Amount detected: '' @ rupee), Fixed 2 amount]\<rparr>"

definition amount_error_result :: rule_result where
  "amount_error_result =
     \<lparr>title = ''Total Validation'', status = ''error'',
      message = [Lit ''Invalid amount value'']\<rparr>"

definition no_duplicate_result :: rule_result where
  "no_duplicate_result =
     \<lparr>title = ''Duplicate Detection'', status = ''success'',
      message = [Lit ''No duplicate found'']\<rparr>"

definition no_tax_result :: rule_result where
  "no_tax_result =
     \<lparr>title = ''Tax Rate Validation'', status = ''success'',
      message = [Lit ''No tax applied (valid)'']\<rparr>"

definition tax_ok_result :: "pyfloat \<Rightarrow> pyfloat \<Rightarrow> rule_result" where
  "tax_ok_result rate subtotal =
     \<lparr>title = ''Tax Rate Validation'', status = ''success'',
      message = [Lit ''Tax rate OK ('', Fixed 2 (fmul rate (Fin 100)),
                 Lit (''%, Subtotal '' @ rupee), Fixed 2 subtotal, Lit '')'']\<rparr>"

definition tax_mismatch_result :: "pyfloat \<Rightarrow> pyfloat \<Rightarrow> rule_result" where
  "tax_mismatch_result tax amount =
     \<lparr>title = ''Tax Rate Validation'', status = ''error'',
      message = [Lit ''Tax mismatch. Expected ~'', Fixed 1 (fmul (Fin (8 / 100)) (Fin 100)),
                 Lit (''% but got '' @ rupee), Fixed 2 tax,
                 Lit ('' on amount '' @ rupee), Fixed 2 amount]\<rparr>"

definition duplicate_result :: rule_result where
  "duplicate_result =
     \<lparr>title = ''Duplicate Detection'', status = ''error'',
      message = [Lit ''Duplicate receipt found'']\<rparr>"

text \<open>
  The result each rule is specified to emit, and the report they make together: after the
  gate the results are those of the four rules in order, then that of the duplicate check
  unless it is skipped.
\<close>

definition spec_date_result :: "pyval \<Rightarrow> rule_result" where
  "spec_date_result d = (if date_parses d then date_ok_result d else date_error_result d)"

definition spec_total_result :: "pyfloat \<Rightarrow> rule_result" where
  "spec_total_result amount =
     (if flt (Fin 0) amount then amount_ok_result amount else amount_error_result)"

definition spec_tax_result :: "pyfloat \<Rightarrow> pyfloat \<Rightarrow> rule_result" where
  "spec_tax_result amount tax =
     (if feq tax (Fin 0) then no_tax_result
      else if qualifies tax (fsub amount tax)
        then tax_ok_result (rate_of tax (fsub amount tax)) (fsub amount tax)
      else if qualifies tax amount then tax_ok_result (rate_of tax amount) amount
      else tax_mismatch_result tax amount)"

definition record_result :: "rule_result \<Rightarrow> report \<Rightarrow> report" where
  "record_result r st =
     (if status r = ''success'' then st\<lparr>results := results st @ [r]\<rparr>
      else st\<lparr>results := results st @ [r], passed := False\<rparr>)"

definition gate_results :: "pyval \<Rightarrow> pyfloat \<Rightarrow> pyfloat \<Rightarrow> rule_result list" where
  "gate_results d amount tax =
     [required_ok_result, spec_date_result d, spec_total_result amount,
      spec_tax_result amount tax]"

definition lookup_results :: "(pyval \<Rightarrow> pyerror + bool) \<Rightarrow> pyval \<Rightarrow> bool \<Rightarrow> rule_result list" where
  "lookup_results ex b skip =
     (if skip then [] else if ex b = Inr True then [duplicate_result] else [no_duplicate_result])"

definition all_success :: "rule_result list \<Rightarrow> bool" where
  "all_success rs = list_all (\<lambda>r. status r = ''success'') rs"

text \<open>The invariant of the rule sequence: \<^verbatim>\<open>passed\<close> tells whether every result so far succeeded.\<close>

definition consistent :: "report \<Rightarrow> bool" where
  "consistent st = (passed st = all_success (results st))"

subsection \<open>Sample inputs\<close>

text \<open>A store that holds the receipts of the given identifiers, and one that is down.\<close>

definition store_with :: "pyval list \<Rightarrow> pyval \<Rightarrow> pyerror + bool" where
  "store_with ids b = Inr (b \<in> set ids)"

definition store_down :: "pyval \<Rightarrow> pyerror + bool" where
  "store_down b = Inl (StoreFault ''database is locked'')"

definition mk_receipt :: "pyval \<Rightarrow> pyval \<Rightarrow> pyval \<Rightarrow> receipt" where
  "mk_receipt d a t =
     map_of [(''bill_id'', PStr ''B-001''), (''vendor'', PStr ''Cafe''), (''date'', d),
             (''amount'', a), (''tax'', t), (''subtotal'', PFloat (Fin 100))]"

definition receipt_no_vendor :: receipt where
  "receipt_no_vendor =
     map_of [(''bill_id'', PStr ''B-001''), (''date'', PStr ''2024-01-15''),
             (''amount'', PInt 108), (''tax'', PNone)]"

section \<open>Evaluation\<close>

lemmas parse_defs =
  float_from_string_def strip_def py_isspace_def parse_inf_or_nan_def take_sign_def lower_def
  parse_decimal_def parse_exponent_def is_digit_def nat_of_digits_def digit_val_def
  inf_of_sign_def

lemmas date_defs =
  date_parses_def strptime_ymd_def match_ymd_def month_day_matches_def
  month_alts_def day_alts_def between_def is_digit_def nat_of_digits_def digit_val_def
  days_in_month_def leap_def

lemmas rule_defs =
  validate_receipt_def rules_after_gate_def missing_fields_def required_def dict_get_def
  getitem_def bind_err_def date_format_def coerce_def total_validation_def
  tax_rate_validation_def duplicate_detection_def append_result_def initial_report_def
  EXPECTED_TAX_RATE_def TOLERANCE_def feq_def double_of_real_def overflow_threshold_def
  underflow_threshold_def

lemmas result_defs =
  missing_result_def required_ok_result_def date_ok_result_def date_error_result_def
  amount_ok_result_def amount_error_result_def no_tax_result_def tax_ok_result_def
  tax_mismatch_result_def duplicate_result_def no_duplicate_result_def

lemmas sample_defs = mk_receipt_def receipt_no_vendor_def store_with_def store_down_def

lemma sample_date_parses: "date_parses (PStr ''2024-01-15'')"
  by (simp add: date_defs)

lemma sample_date_fails:
  "\<not> date_parses (PStr ''15/01/2024'')" "\<not> str_raises (PStr ''15/01/2024'')"
  by (simp_all add: date_defs str_raises_def)

section \<open>Where an exception can come from\<close>

lemma gate_present:
  assumes "missing_fields data = []" and "k \<in> set required"
  shows "\<exists>v. data k = Some v \<and> v \<noteq> PNone"
  using assms
  by (auto simp: missing_fields_def dict_get_def filter_empty_conv split: option.splits)

lemma float_from_string_error: "float_from_string s = Inl e \<Longrightarrow> e = ValueError"
  by (auto simp: float_from_string_def Let_def split: option.splits if_splits prod.splits)

lemma py_float_error:
  "py_float v = Inl e \<Longrightarrow> e = TypeError \<or> e = ValueError \<or> e = OverflowError"
  by (cases v) (auto split: if_splits dest: float_from_string_error)

text \<open>The handler of the source lets exactly the overflow of a large int through.\<close>

lemma coerce_error:
  assumes "coerce v = Inl e"
  shows "e = OverflowError \<and> (\<exists>i. v = PInt i \<and> 2 ^ 1024 - 2 ^ 970 \<le> \<bar>i\<bar>)"
proof (cases v)
  case (PStr s)
  with assms show ?thesis
    by (auto simp: coerce_def split: sum.splits if_splits dest: float_from_string_error)
qed (use assms in \<open>auto simp: coerce_def split: sum.splits if_splits\<close>)

text \<open>The division of the loop is guarded: a subtotal that is not skipped is not zero.\<close>

lemma fdiv_defined: "\<not> fle c (Fin 0) \<Longrightarrow> fdiv t c \<noteq> Inl e"
  by (cases c; cases t) auto

lemma try_subtotals_defined: "try_subtotals t cs \<noteq> Inl e"
proof (induction cs)
  case Nil
  show ?case by simp
next
  case (Cons c cs)
  show ?case
  proof (cases "fle c (Fin 0)")
    case True
    with Cons show ?thesis by simp
  next
    case False
    then obtain r where "fdiv t c = Inr r"
      using fdiv_defined [of c t] by (cases "fdiv t c") auto
    with False Cons show ?thesis by (simp add: bind_err_def)
  qed
qed

lemma tax_rate_validation_defined: "tax_rate_validation a t st \<noteq> Inl e"
proof (cases "try_subtotals t [fsub a t, a]")
  case (Inl e')
  then show ?thesis using try_subtotals_defined by blast
next
  case (Inr res)
  then show ?thesis
    by (cases res) (simp add: tax_rate_validation_def bind_err_def)
qed

section \<open>The passed flag\<close>

lemma consistent_initial: "consistent initial_report"
  by (simp add: consistent_def initial_report_def all_success_def)

lemma consistent_success:
  "consistent st \<Longrightarrow> consistent (append_result t ''success'' m st)"
  by (simp add: consistent_def append_result_def all_success_def)

lemma consistent_error:
  "consistent ((append_result t ''error'' m st)\<lparr>passed := False\<rparr>)"
  by (simp add: consistent_def append_result_def all_success_def)

lemma consistent_date_format:
  "consistent st \<Longrightarrow> date_format d st = Inr st' \<Longrightarrow> consistent st'"
  by (auto simp: date_format_def consistent_success consistent_error split: if_splits)

lemma consistent_total_validation:
  "consistent st \<Longrightarrow> consistent (total_validation a st)"
  by (simp add: total_validation_def consistent_success consistent_error)

lemma consistent_tax_rate_validation:
  "consistent st \<Longrightarrow> tax_rate_validation a t st = Inr st' \<Longrightarrow> consistent st'"
  by (auto simp: tax_rate_validation_def bind_err_def consistent_success consistent_error
           split: if_splits sum.splits prod.splits)

lemma consistent_duplicate_detection:
  "consistent st \<Longrightarrow> duplicate_detection ex b st = Inr st' \<Longrightarrow> consistent st'"
  by (auto simp: duplicate_detection_def bind_err_def consistent_success consistent_error
           split: if_splits sum.splits)

lemma consistent_rules_after_gate:
  "rules_after_gate data = Inr st \<Longrightarrow> consistent st"
  by (auto simp: rules_after_gate_def bind_err_def Let_def
           intro!: consistent_success consistent_initial
           elim!: consistent_tax_rate_validation [rotated]
           intro: consistent_total_validation consistent_date_format
           split: sum.splits)

text \<open>
  Claim C2. Whatever the record, the skip-duplicate flag and the store, the \<^verbatim>\<open>passed\<close>
  field of a report that \<^verbatim>\<open>validate_receipt\<close> returns is true exactly when every result
  in its \<^verbatim>\<open>results\<close> has status \<^verbatim>\<open>success\<close>.
\<close>

theorem passed_iff_all_success:
  assumes "snd (validate_receipt receipt_exists data skip_duplicate) = Inr rep"
  shows "passed rep = (\<forall>r \<in> set (results rep). status r = ''success'')"
proof -
  have "consistent rep"
  proof (cases "missing_fields data = []")
    case False
    with assms show ?thesis
      by (auto simp: validate_receipt_def Let_def consistent_error)
  next
    case True
    show ?thesis
    proof (cases "rules_after_gate data")
      case (Inl e)
      with True assms show ?thesis by (simp add: validate_receipt_def)
    next
      case (Inr st)
      then have st: "consistent st" by (rule consistent_rules_after_gate)
      show ?thesis
      proof (cases skip_duplicate)
        case True
        with \<open>missing_fields data = []\<close> Inr assms st show ?thesis
          by (simp add: validate_receipt_def)
      next
        case False
        with \<open>missing_fields data = []\<close> Inr assms
        obtain b where "duplicate_detection receipt_exists b st = Inr rep"
          by (auto simp: validate_receipt_def split: sum.splits)
        with st show ?thesis by (rule consistent_duplicate_detection)
      qed
    qed
  qed
  then show ?thesis by (simp add: consistent_def all_success_def list_all_iff)
qed

text \<open>
  At a receipt of amount 108 and tax 8 that the store already holds: four rules succeed,
  the duplicate check fails, and \<^verbatim>\<open>passed\<close> is false.
\<close>

theorem passed_iff_all_success_witness:
  "snd (validate_receipt (store_with [PStr ''B-001''])
          (mk_receipt (PStr ''2024-01-15'') (PInt 108) (PInt 8)) False)
     = Inr \<lparr>passed = False,
            results = [required_ok_result, date_ok_result (PStr ''2024-01-15''),
                       amount_ok_result (Fin 108), tax_ok_result (Fin (8 / 100)) (Fin 100),
                       duplicate_result]\<rparr>
   \<and> (passed \<lparr>passed = False,
               results = [required_ok_result, date_ok_result (PStr ''2024-01-15''),
                          amount_ok_result (Fin 108), tax_ok_result (Fin (8 / 100)) (Fin 100),
                          duplicate_result]\<rparr>
        = (\<forall>r \<in> set (results \<lparr>passed = False,
               results = [required_ok_result, date_ok_result (PStr ''2024-01-15''),
                          amount_ok_result (Fin 108), tax_ok_result (Fin (8 / 100)) (Fin 100),
                          duplicate_result]\<rparr>). status r = ''success''))"
proof -
  have h: "snd (validate_receipt (store_with [PStr ''B-001''])
                  (mk_receipt (PStr ''2024-01-15'') (PInt 108) (PInt 8)) False)
             = Inr \<lparr>passed = False,
                    results = [required_ok_result, date_ok_result (PStr ''2024-01-15''),
                               amount_ok_result (Fin 108),
                               tax_ok_result (Fin (8 / 100)) (Fin 100), duplicate_result]\<rparr>"
    by (simp add: rule_defs result_defs sample_defs sample_date_parses Let_def)
  show ?thesis using h passed_iff_all_success [OF h] by simp
qed

section \<open>The rules, one result each\<close>

lemma try_subtotals_step:
  "try_subtotals t (c # cs) =
     (if qualifies t c then Inr (True, c, rate_of t c) else try_subtotals t cs)"
proof (cases "fle c (Fin 0)")
  case True
  then show ?thesis by (simp add: qualifies_def)
next
  case False
  then obtain r where r: "fdiv t c = Inr r"
    using fdiv_defined [of c t] by (cases "fdiv t c") auto
  with False show ?thesis
    by (simp add: qualifies_def rate_of_def bind_err_def EXPECTED_TAX_RATE_def TOLERANCE_def)
qed

lemma date_format_eq:
  "date_format d st =
     (if \<not> date_parses d \<and> str_raises d then Inl ValueError
      else Inr (record_result (spec_date_result d) st))"
  by (simp add: date_format_def spec_date_result_def record_result_def append_result_def
                date_ok_result_def date_error_result_def)

lemma total_validation_eq:
  "total_validation a st = record_result (spec_total_result a) st"
  by (simp add: total_validation_def spec_total_result_def record_result_def append_result_def
                amount_ok_result_def amount_error_result_def)

lemma tax_rate_validation_eq:
  "tax_rate_validation a t st = Inr (record_result (spec_tax_result a t) st)"
  by (simp add: tax_rate_validation_def spec_tax_result_def record_result_def
                try_subtotals_step bind_err_def append_result_def no_tax_result_def
                tax_ok_result_def tax_mismatch_result_def EXPECTED_TAX_RATE_def
           del: try_subtotals.simps(2))

lemma duplicate_detection_eq:
  "duplicate_detection ex b st =
     (case ex b of
        Inl e \<Rightarrow> Inl e
      | Inr found \<Rightarrow>
          Inr (record_result (if found then duplicate_result else no_duplicate_result) st))"
  by (simp add: duplicate_detection_def bind_err_def record_result_def append_result_def
                duplicate_result_def no_duplicate_result_def split: sum.splits)

lemma results_record_result [simp]: "results (record_result r st) = results st @ [r]"
  by (simp add: record_result_def)

lemma passed_record_result [simp]:
  "passed (record_result r st) = (passed st \<and> status r = ''success'')"
  by (simp add: record_result_def)

lemma gate_fields:
  assumes "missing_fields data = []"
  obtains b d av tv where "data ''bill_id'' = Some b" and "data ''date'' = Some d"
    and "data ''amount'' = Some av" and "data ''tax'' = Some tv"
proof -
  have "\<exists>v. data ''bill_id'' = Some v \<and> v \<noteq> PNone" "\<exists>v. data ''date'' = Some v \<and> v \<noteq> PNone"
    "\<exists>v. data ''amount'' = Some v \<and> v \<noteq> PNone" "\<exists>v. data ''tax'' = Some v \<and> v \<noteq> PNone"
    using assms by (auto intro!: gate_present simp: required_def)
  then show ?thesis using that by blast
qed

lemma rules_after_gate_eq:
  assumes "data ''date'' = Some d" and "data ''amount'' = Some av" and "data ''tax'' = Some tv"
  shows "rules_after_gate data =
           (if \<not> date_parses d \<and> str_raises d then Inl ValueError
            else bind_err (coerce av) (\<lambda>a. bind_err (coerce tv) (\<lambda>t.
                   Inr \<lparr>passed = all_success (gate_results d a t),
                        results = gate_results d a t\<rparr>)))"
  using assms
  by (simp add: rules_after_gate_def getitem_def bind_err_def date_format_eq
                total_validation_eq tax_rate_validation_eq record_result_def
                append_result_def initial_report_def gate_results_def all_success_def
                required_ok_result_def
           split: sum.splits)

lemma gate_report:
  assumes "coerced data ''amount'' = Inr a" and "coerced data ''tax'' = Inr t"
    and "rules_after_gate data = Inr st"
  shows "st = \<lparr>passed = all_success (gate_results (dict_get data ''date'') a t),
               results = gate_results (dict_get data ''date'') a t\<rparr>"
proof -
  from assms(3) obtain d where d: "data ''date'' = Some d"
    by (cases "data ''date''") (auto simp: rules_after_gate_def getitem_def bind_err_def)
  from assms(1) obtain av where av: "data ''amount'' = Some av" "coerce av = Inr a"
    by (cases "data ''amount''") (auto simp: coerced_def getitem_def bind_err_def)
  from assms(2) obtain tv where tv: "data ''tax'' = Some tv" "coerce tv = Inr t"
    by (cases "data ''tax''") (auto simp: coerced_def getitem_def bind_err_def)
  from assms(3) d av tv show ?thesis
    by (simp add: rules_after_gate_eq [OF d av(1) tv(1)] bind_err_def dict_get_def
             split: if_splits)
qed

lemma validate_after_gate:
  assumes "missing_fields data = []"
  shows "validate_receipt ex data skip =
           (case rules_after_gate data of
              Inl e \<Rightarrow> ([], Inl e)
            | Inr st \<Rightarrow>
                if skip then ([], Inr st)
                else ([dict_get data ''bill_id''],
                      case ex (dict_get data ''bill_id'') of
                        Inl e \<Rightarrow> Inl e
                      | Inr found \<Rightarrow>
                          Inr (record_result
                                 (if found then duplicate_result else no_duplicate_result) st)))"
proof -
  from assms obtain b where "data ''bill_id'' = Some b" by (rule gate_fields)
  with assms show ?thesis
    by (simp add: validate_receipt_def getitem_def dict_get_def duplicate_detection_eq
             split: sum.splits)
qed

lemma validate_gate_closed:
  assumes "missing_fields data \<noteq> []"
  shows "validate_receipt ex data skip =
           ([], Inr \<lparr>passed = False, results = [missing_result (missing_fields data)]\<rparr>)"
  using assms
  by (simp add: validate_receipt_def Let_def append_result_def initial_report_def
                missing_result_def)

lemma rules_after_gate_coerced:
  assumes "rules_after_gate data = Inr st"
  shows "\<exists>a t. coerced data ''amount'' = Inr a \<and> coerced data ''tax'' = Inr t"
  using assms
  by (auto simp: rules_after_gate_def coerced_def bind_err_def Let_def split: sum.splits)

lemma validate_report:
  assumes "missing_fields data = []"
    and "snd (validate_receipt ex data skip) = Inr rep"
  shows "\<exists>a t. coerced data ''amount'' = Inr a \<and> coerced data ''tax'' = Inr t
           \<and> rep = \<lparr>passed = all_success (gate_results (dict_get data ''date'') a t
                                            @ lookup_results ex (dict_get data ''bill_id'') skip),
                     results = gate_results (dict_get data ''date'') a t
                               @ lookup_results ex (dict_get data ''bill_id'') skip\<rparr>"
proof (cases "rules_after_gate data")
  case (Inl e)
  with assms show ?thesis by (simp add: validate_after_gate)
next
  case (Inr st)
  then obtain a t where c: "coerced data ''amount'' = Inr a" "coerced data ''tax'' = Inr t"
    using rules_after_gate_coerced by blast
  note st = gate_report [OF c Inr]
  show ?thesis
  proof (cases skip)
    case True
    with assms Inr c st show ?thesis
      by (simp add: validate_after_gate lookup_results_def)
  next
    case False
    with assms Inr obtain found where f: "ex (dict_get data ''bill_id'') = Inr found"
      by (cases "ex (dict_get data ''bill_id'')") (auto simp: validate_after_gate)
    with False assms Inr c show ?thesis
      by (cases found)
         (auto simp: validate_after_gate lookup_results_def st record_result_def
                     all_success_def duplicate_result_def no_duplicate_result_def)
  qed
qed

lemma title_gate_results:
  "map title (gate_results d a t) =
     [''Required Fields'', ''Date Format'', ''Total Validation'', ''Tax Rate Validation'']"
  by (simp add: gate_results_def spec_date_result_def spec_total_result_def
                spec_tax_result_def result_defs)

lemma title_lookup_results:
  "map title (lookup_results ex b skip) = (if skip then [] else [''Duplicate Detection''])"
  by (simp add: lookup_results_def duplicate_result_def no_duplicate_result_def)

lemma length_gate_results [simp]: "length (gate_results d a t) = 4"
  by (simp add: gate_results_def)

lemma nth_gate_results:
  "(gate_results d a t @ xs) ! 1 = spec_date_result d"
  "(gate_results d a t @ xs) ! 2 = spec_total_result a"
  "(gate_results d a t @ xs) ! 3 = spec_tax_result a t"
  by (simp_all add: gate_results_def numeral_2_eq_2 numeral_3_eq_3)

lemma all_success_append:
  "all_success (xs @ ys) = (all_success xs \<and> all_success ys)"
  by (simp add: all_success_def)

lemma all_success_gate_results:
  "all_success (gate_results d a t) =
     (status (spec_date_result d) = ''success'' \<and> status (spec_total_result a) = ''success''
      \<and> status (spec_tax_result a t) = ''success'')"
  by (simp add: all_success_def gate_results_def required_ok_result_def)

lemma status_spec_date_result:
  "(status (spec_date_result d) = ''success'') = date_parses d"
  by (simp add: spec_date_result_def date_ok_result_def date_error_result_def)

lemma status_spec_total_result:
  "(status (spec_total_result a) = ''success'') = flt (Fin 0) a"
  by (simp add: spec_total_result_def amount_ok_result_def amount_error_result_def)

lemma status_spec_tax_result:
  "(status (spec_tax_result a t) = ''success'')
     = (feq t (Fin 0) \<or> qualifies t (fsub a t) \<or> qualifies t a)"
  by (simp add: spec_tax_result_def no_tax_result_def tax_ok_result_def
                tax_mismatch_result_def)

text \<open>
  Claim C3. When any of \<^verbatim>\<open>bill_id\<close>, \<^verbatim>\<open>vendor\<close>, \<^verbatim>\<open>date\<close>, \<^verbatim>\<open>amount\<close>, \<^verbatim>\<open>tax\<close> is
  absent or None, the report has exactly one result, the error that names the missing
  fields, and \<^verbatim>\<open>passed\<close> is false; no other rule has run, and the log of calls to the
  store is empty.
\<close>

theorem missing_field_short_circuit:
  assumes "\<exists>f \<in> set required. data f = None \<or> data f = Some PNone"
  shows "validate_receipt receipt_exists data skip_duplicate =
           ([], Inr \<lparr>passed = False,
                    results = [missing_result
                                 (filter (\<lambda>f. data f = None \<or> data f = Some PNone) required)]\<rparr>)"
proof -
  have eq: "missing_fields data = filter (\<lambda>f. data f = None \<or> data f = Some PNone) required"
    unfolding missing_fields_def
    by (rule filter_cong) (auto simp: dict_get_def split: option.splits)
  with assms have "missing_fields data \<noteq> []" by (auto simp: filter_empty_conv)
  then show ?thesis using eq by (simp add: validate_gate_closed)
qed

text \<open>
  Claim C9. The report, and the log of calls, depend on the store only through its answer
  for the record's \<^verbatim>\<open>bill_id\<close>: two stores that answer alike there give the same
  outcome for the same record and flag.
\<close>

theorem validate_deterministic:
  assumes "store1 (dict_get data ''bill_id'') = store2 (dict_get data ''bill_id'')"
  shows "validate_receipt store1 data skip_duplicate = validate_receipt store2 data skip_duplicate"
proof (cases "missing_fields data = []")
  case True
  then show ?thesis
    by (cases "rules_after_gate data") (simp_all add: validate_after_gate assms)
next
  case False
  then show ?thesis by (simp add: validate_gate_closed)
qed

text \<open>
  Claim C8. A report returned for a record that passes the gate lists the rules in the
  fixed order, Duplicate Detection left out exactly when the flag is set; a date that does
  not parse gives the Date Format error and \<^verbatim>\<open>passed = False\<close>, and the later rules are
  still in the report.
\<close>

theorem rule_order:
  assumes "missing_fields data = []"
    and "snd (validate_receipt receipt_exists data skip_duplicate) = Inr rep"
  shows "map title (results rep) =
           [''Required Fields'', ''Date Format'', ''Total Validation'', ''Tax Rate Validation'']
           @ (if skip_duplicate then [] else [''Duplicate Detection''])
         \<and> (\<not> date_parses (dict_get data ''date'') \<longrightarrow>
              results rep ! 1 = date_error_result (dict_get data ''date'') \<and> \<not> passed rep)"
proof -
  from validate_report [OF assms] obtain a t where
    rep: "rep = \<lparr>passed = all_success (gate_results (dict_get data ''date'') a t
                    @ lookup_results receipt_exists (dict_get data ''bill_id'') skip_duplicate),
                 results = gate_results (dict_get data ''date'') a t
                    @ lookup_results receipt_exists (dict_get data ''bill_id'') skip_duplicate\<rparr>"
    by blast
  have "map title (results rep) =
          [''Required Fields'', ''Date Format'', ''Total Validation'', ''Tax Rate Validation'']
          @ (if skip_duplicate then [] else [''Duplicate Detection''])"
    by (simp add: rep title_gate_results title_lookup_results)
  moreover have "results rep ! 1 = date_error_result (dict_get data ''date'') \<and> \<not> passed rep"
    if "\<not> date_parses (dict_get data ''date'')"
    using that
    by (simp add: rep nth_append all_success_append all_success_gate_results
                  status_spec_date_result)
       (simp add: gate_results_def spec_date_result_def)
  ultimately show ?thesis by blast
qed

text \<open>
  Claim C1. With \<open>a\<close> and \<open>t\<close> the coerced amount and tax of a record that passes the
  gate: if \<open>t\<close> equals zero the Tax Rate Validation result is the no-tax success;
  otherwise it is the success of the first of \<open>a - t\<close> and \<open>a\<close> that qualifies, carrying
  that candidate and its rate, and when neither qualifies the mismatch error with
  \<^verbatim>\<open>passed = False\<close>.
\<close>

theorem tax_rate_rule:
  assumes "missing_fields data = []"
    and "coerced data ''amount'' = Inr a" and "coerced data ''tax'' = Inr t"
    and "snd (validate_receipt receipt_exists data skip_duplicate) = Inr rep"
  shows "results rep ! 3 =
           (if feq t (Fin 0) then no_tax_result
            else if qualifies t (fsub a t) then tax_ok_result (rate_of t (fsub a t)) (fsub a t)
            else if qualifies t a then tax_ok_result (rate_of t a) a
            else tax_mismatch_result t a)
         \<and> (\<not> feq t (Fin 0) \<and> \<not> qualifies t (fsub a t) \<and> \<not> qualifies t a \<longrightarrow> \<not> passed rep)"
proof -
  from validate_report [OF assms(1,4)] assms(2,3)
  have res: "results rep ! 3 = spec_tax_result a t"
    and pass: "passed rep \<longrightarrow> status (spec_tax_result a t) = ''success''"
    by (auto simp: nth_gate_results all_success_append all_success_gate_results)
  from res have "results rep ! 3 =
           (if feq t (Fin 0) then no_tax_result
            else if qualifies t (fsub a t) then tax_ok_result (rate_of t (fsub a t)) (fsub a t)
            else if qualifies t a then tax_ok_result (rate_of t a) a
            else tax_mismatch_result t a)"
    by (simp add: spec_tax_result_def)
  moreover from pass have "\<not> passed rep"
    if "\<not> feq t (Fin 0) \<and> \<not> qualifies t (fsub a t) \<and> \<not> qualifies t a"
    using that by (simp add: status_spec_tax_result)
  ultimately show ?thesis by blast
qed

section \<open>A negative tax\<close>

lemma overflow_threshold_pos: "0 < overflow_threshold"
proof -
  have "(2::real) ^ 970 < 2 ^ 1024" by (rule power_strict_increasing) simp_all
  then show ?thesis by (simp only: overflow_threshold_def diff_gt_0_iff_gt)
qed

lemma underflow_threshold_small: "underflow_threshold < 8 / 100"
proof -
  have "(2::real) ^ 1 \<le> 2 ^ 1075" by (rule power_increasing) simp_all
  then have "1 / (2::real) ^ 1075 \<le> 1 / 2 ^ 1"
    by (intro divide_left_mono) simp_all
  then show ?thesis unfolding underflow_threshold_def by simp
qed


lemma double_of_real_nonpos:
  assumes "x \<le> 0"
  shows "double_of_real x = NInf \<or> double_of_real x = Fin 0 \<or> double_of_real x = Fin x"
  using assms overflow_threshold_pos by (auto simp: double_of_real_def)

lemma underflow_threshold_pos: "0 < underflow_threshold"
  by (simp only: underflow_threshold_def zero_less_divide_1_iff zero_less_power zero_less_numeral)

lemma double_of_real_zero:
  assumes "double_of_real x = Fin 0"
  shows "\<bar>x\<bar> \<le> underflow_threshold"
  using assms underflow_threshold_pos by (auto simp: double_of_real_def split: if_splits)

lemma far_from_expected:
  assumes "x \<le> 0"
  shows "\<not> fle (fabs (fsub (Fin x) (Fin (8 / 100)))) (Fin (5 / 100))"
proof -
  define v where "v = x - 8 / 100"
  have v: "v \<le> - (8 / 100)" using assms by (simp add: v_def)
  have sub: "fsub (Fin x) (Fin (8 / 100)) = double_of_real v"
    by (simp only: fsub.simps v_def)
  from v have "v \<le> 0" by simp
  from double_of_real_nonpos [OF this] show ?thesis
  proof (elim disjE)
    assume "double_of_real v = NInf"
    then show ?thesis by (simp only: sub fabs.simps fle.simps not_False_eq_True)
  next
    assume z: "double_of_real v = Fin 0"
    from double_of_real_zero [OF z] v underflow_threshold_small have False by linarith
    then show ?thesis ..
  next
    assume f: "double_of_real v = Fin v"
    have "\<not> \<bar>v\<bar> \<le> 5 / 100" using v by linarith
    then show ?thesis by (simp only: sub f fabs.simps fle.simps not_False_eq_True)
  qed
qed

lemma negative_tax_rate:
  assumes "flt t (Fin 0)" and "\<not> fle c (Fin 0)" and "fdiv t c = Inr r"
  shows "\<not> fle (fabs (fsub r (Fin (8 / 100)))) (Fin (5 / 100))"
proof -
  have "r = NInf \<or> r = NaN \<or> (\<exists>x. r = Fin x \<and> x \<le> 0)"
  proof (cases c)
    case (Fin y)
    with assms(2) have y: "0 < y" by simp
    show ?thesis
    proof (cases t)
      case (Fin x)
      with assms(1) have "x < 0" by simp
      with y have q: "x / y \<le> 0" by (simp add: divide_nonpos_pos)
      from assms(3) Fin \<open>c = Fin y\<close> y have "r = double_of_real (x / y)" by simp
      with double_of_real_nonpos [OF q] q show ?thesis by auto
    qed (use assms Fin y in \<open>auto simp: inf_of_sign_def\<close>)
  next
    case PInf
    with assms show ?thesis by (cases t) auto
  next
    case NInf
    with assms show ?thesis by simp
  next
    case NaN
    with assms show ?thesis by (cases t) auto
  qed
  then show ?thesis
  proof (elim disjE exE conjE)
    fix x assume "r = Fin x" "x \<le> 0"
    then show ?thesis using far_from_expected by simp
  qed simp_all
qed

lemma negative_tax_never_qualifies: "flt t (Fin 0) \<Longrightarrow> \<not> qualifies t c"
proof (cases "fle c (Fin 0)")
  case True
  then show ?thesis by (simp add: qualifies_def)
next
  case False
  assume t: "flt t (Fin 0)"
  from False obtain r where r: "fdiv t c = Inr r"
    using fdiv_defined [of c t] by (cases "fdiv t c") auto
  with negative_tax_rate [OF t False r] show ?thesis
    by (simp only: qualifies_def rate_of_def sum.case simp_thms)
qed

lemma negative_tax_not_zero: "flt t (Fin 0) \<Longrightarrow> \<not> feq t (Fin 0)"
  by (cases t) (auto simp: feq_def)

text \<open>
  Claim C10. A coerced tax below zero is not equal to zero, and over a candidate that is
  not skipped its rate is at most zero, so never within 0.05 of 0.08: the Tax Rate
  Validation result is the mismatch error and \<^verbatim>\<open>passed\<close> is false.
\<close>

theorem negative_tax_fails:
  assumes "missing_fields data = []"
    and "coerced data ''amount'' = Inr a" and "coerced data ''tax'' = Inr t"
    and "flt t (Fin 0)"
    and "snd (validate_receipt receipt_exists data skip_duplicate) = Inr rep"
  shows "results rep ! 3 = tax_mismatch_result t a \<and> \<not> passed rep"
proof -
  from validate_report [OF assms(1,5)] assms(2,3)
  have res: "results rep ! 3 = spec_tax_result a t"
    and pass: "passed rep \<longrightarrow> status (spec_tax_result a t) = ''success''"
    by (auto simp: nth_gate_results all_success_append all_success_gate_results)
  have no: "\<not> feq t (Fin 0)" "\<not> qualifies t (fsub a t)" "\<not> qualifies t a"
    using assms(4) by (simp_all add: negative_tax_never_qualifies negative_tax_not_zero)
  from res no have "results rep ! 3 = tax_mismatch_result t a"
    by (simp add: spec_tax_result_def)
  moreover from pass no have "\<not> passed rep" by (simp add: status_spec_tax_result)
  ultimately show ?thesis by blast
qed

section \<open>The duplicate check\<close>

lemma skipped_run:
  assumes "missing_fields data = []"
  shows "validate_receipt ex data True = ([], rules_after_gate data)"
  using assms by (cases "rules_after_gate data") (simp_all add: validate_after_gate)

lemma checked_run:
  assumes "missing_fields data = []" and "rules_after_gate data = Inr st"
    and "ex (dict_get data ''bill_id'') = Inr found"
  shows "validate_receipt ex data False =
           ([dict_get data ''bill_id''],
            Inr (record_result (if found then duplicate_result else no_duplicate_result) st))"
  using assms by (simp add: validate_after_gate)

lemma record_result_error:
  "status r = ''error'' \<Longrightarrow> record_result r st = \<lparr>passed = False, results = results st @ [r]\<rparr>"
  by (cases st) (simp add: record_result_def)

lemma status_duplicate_result: "status duplicate_result = ''error''"
  by (simp add: duplicate_result_def)

text \<open>
  Claim C5. For a record that passes the gate. With the flag false and the store
  answering true, a report that is returned ends with the Duplicate Detection error and
  has \<^verbatim>\<open>passed = False\<close>; it is the report of the other rules, whatever they found, with
  that error appended. With the flag true the store is not consulted, the outcome is the
  same for every store, and no result is titled Duplicate Detection.
\<close>

theorem duplicate_detection_rule:
  assumes "missing_fields data = []"
  shows "(receipt_exists (dict_get data ''bill_id'') = Inr True
            \<and> snd (validate_receipt receipt_exists data False) = Inr rep
          \<longrightarrow> last (results rep) = duplicate_result \<and> \<not> passed rep)
       \<and> (receipt_exists (dict_get data ''bill_id'') = Inr True
            \<and> snd (validate_receipt receipt_exists data True) = Inr st
          \<longrightarrow> validate_receipt receipt_exists data False
                = ([dict_get data ''bill_id''],
                   Inr \<lparr>passed = False, results = results st @ [duplicate_result]\<rparr>))
       \<and> fst (validate_receipt receipt_exists data True) = []
       \<and> validate_receipt other_store data True = validate_receipt receipt_exists data True
       \<and> (snd (validate_receipt receipt_exists data True) = Inr st
          \<longrightarrow> (\<forall>r \<in> set (results st). title r \<noteq> ''Duplicate Detection''))"
proof -
  have 1: "receipt_exists (dict_get data ''bill_id'') = Inr True
             \<and> snd (validate_receipt receipt_exists data False) = Inr rep
           \<longrightarrow> last (results rep) = duplicate_result \<and> \<not> passed rep"
  proof (intro impI, elim conjE)
    assume found: "receipt_exists (dict_get data ''bill_id'') = Inr True"
      and rep: "snd (validate_receipt receipt_exists data False) = Inr rep"
    have l: "lookup_results receipt_exists (dict_get data ''bill_id'') False = [duplicate_result]"
      by (simp add: lookup_results_def found)
    from validate_report [OF assms rep] obtain a t where
      "rep = \<lparr>passed = all_success (gate_results (dict_get data ''date'') a t @ [duplicate_result]),
              results = gate_results (dict_get data ''date'') a t @ [duplicate_result]\<rparr>"
      unfolding l by (elim exE conjE)
    then show "last (results rep) = duplicate_result \<and> \<not> passed rep"
      by (simp add: all_success_append all_success_def status_duplicate_result)
  qed
  have 2: "receipt_exists (dict_get data ''bill_id'') = Inr True
             \<and> snd (validate_receipt receipt_exists data True) = Inr st
           \<longrightarrow> validate_receipt receipt_exists data False
                = ([dict_get data ''bill_id''],
                   Inr \<lparr>passed = False, results = results st @ [duplicate_result]\<rparr>)"
  proof (intro impI, elim conjE)
    assume found: "receipt_exists (dict_get data ''bill_id'') = Inr True"
      and st: "snd (validate_receipt receipt_exists data True) = Inr st"
    from st have "rules_after_gate data = Inr st" by (simp add: skipped_run [OF assms])
    from checked_run [where ex = receipt_exists and found = True, OF assms this found]
    show "validate_receipt receipt_exists data False
            = ([dict_get data ''bill_id''],
               Inr \<lparr>passed = False, results = results st @ [duplicate_result]\<rparr>)"
      by (simp add: record_result_error status_duplicate_result)
  qed
  have 3: "fst (validate_receipt receipt_exists data True) = []"
    by (simp add: skipped_run [OF assms])
  have 4: "validate_receipt other_store data True = validate_receipt receipt_exists data True"
    by (simp add: skipped_run [OF assms])
  have 5: "snd (validate_receipt receipt_exists data True) = Inr st
           \<longrightarrow> (\<forall>r \<in> set (results st). title r \<noteq> ''Duplicate Detection'')"
  proof (intro impI ballI)
    fix r
    assume st: "snd (validate_receipt receipt_exists data True) = Inr st"
      and r: "r \<in> set (results st)"
    have l: "lookup_results receipt_exists (dict_get data ''bill_id'') True = []"
      by (simp add: lookup_results_def)
    from validate_report [OF assms st] obtain a t where
      "results st = gate_results (dict_get data ''date'') a t"
      unfolding l by auto
    then have "map title (results st) =
            [''Required Fields'', ''Date Format'', ''Total Validation'', ''Tax Rate Validation'']"
      by (simp add: title_gate_results)
    moreover from r have "title r \<in> set (map title (results st))" by simp
    ultimately have "title r \<in> set [''Required Fields'', ''Date Format'', ''Total Validation'',
                                     ''Tax Rate Validation'']"
      by (simp only:)
    then show "title r \<noteq> ''Duplicate Detection''" by auto
  qed
  show ?thesis by (intro conjI) (rule 1 2 3 4 5)+
qed

end
